theory Spec2Isabelle
  imports Main
begin

section \<open>Data model\<close>

text \<open>
  The entities of \<^verbatim>\<open>src/auth/auth.service.ts\<close>. A JavaScript number is an integer or
  \<open>NaN\<close> here: the \<open>exp\<close> claim of a signed token is a whole number of seconds, and
  \<open>undefined * 1000\<close> is \<open>NaN\<close>.
\<close>

datatype js_number = Number int | NaN

text \<open>
  The \<open>Jwt\<close> entity (one Session Token row). \<open>jwt_id\<close> is the primary key, absent on an
  object made by \<^verbatim>\<open>new Jwt()\<close> until it is saved; \<open>jwt_user\<close> is the id of the owning user.
\<close>

record Jwt =
  jwt_id :: "nat option"
  os :: string
  platform :: string
  browser :: string
  jwtToken :: string
  jwt_user :: nat

text \<open>
  The \<open>User\<close> entity. \<open>jwtTokens\<close> is the relation \<^verbatim>\<open>UserRelations.JWT_TOKENS\<close>:
  \<open>None\<close> is JavaScript's \<open>undefined\<close> (relation not loaded).
\<close>

record User =
  user_id :: nat
  email :: string
  password :: string
  activationSecret :: "string option"
  jwtTokens :: "Jwt list option"

record UserAgentData =
  ua_os :: string
  ua_platform :: string
  ua_browser :: string

record JwtPayload =
  payload_id :: nat
  payload_email :: string
  iat :: "int option"
  exp_claim :: "int option"

record UserCreateDto =
  dto_email :: string
  dto_password :: string

text \<open>The persisted state: the User table and the Session Token table.\<close>

record Store =
  users :: "User list"
  jwts :: "Jwt list"

datatype error =
    NotFoundException
  | UnauthorizedException "string option"
  | InternalServerErrorException
  | BadRequestException
  | TypeError

record JwtRes =
  token :: string
  expiresAt :: js_number

record UserResDto =
  jwt :: JwtRes
  user :: User

record SuccessDto =
  status :: nat
  message :: string

text \<open>
  What \<open>activateUser\<close> hands back: the message object, or an exception object passed
  back as an ordinary value by \<^verbatim>\<open>return\<close>.
\<close>

datatype ActivateResult = ActivationMessage string | ReturnedException error

text \<open>
  The injected collaborators, none of which is part of the code under verification:
  the signed-token codec (\<^verbatim>\<open>jwtService.signAsync\<close>, \<^verbatim>\<open>jwtService.decode\<close>, \<open>None\<close> being the
  \<open>null\<close> that \<open>decode\<close> gives for a string it cannot read), \<^verbatim>\<open>bcrypt.compare\<close>, whether
  a given write of the Session Token table is rejected by the database, whether the
  confirmation mail goes out, and \<^verbatim>\<open>userService.create\<close>.
\<close>

record Env =
  signAsync :: "JwtPayload \<Rightarrow> string"
  decode :: "string \<Rightarrow> JwtPayload option"
  bcrypt_compare :: "string \<Rightarrow> string \<Rightarrow> bool"
  Jwt_save_rejects :: "Jwt \<Rightarrow> Store \<Rightarrow> bool"
  sendUserConfirmation :: "User \<Rightarrow> bool"
  userService_create :: "UserCreateDto \<Rightarrow> Store \<Rightarrow> (error + User) \<times> Store"

section \<open>Persistence layer\<close>

text \<open>
  Modelled from the spec: the \<open>User\<close> and \<open>Jwt\<close> entity classes, \<open>UserService\<close> and the
  active-record operations they inherit are not among the sources. The Token Store
  of the spec supports lookup, upsert (insert if absent, else overwrite in place) and
  delete by composite key with an affected count; a user looked up with the
  \<open>JWT_TOKENS\<close> relation owns the Session Tokens that refer to it.
\<close>

definition with_relations :: "Store \<Rightarrow> User \<Rightarrow> User" where
  "with_relations s u = u\<lparr>jwtTokens := Some (filter (\<lambda>t. jwt_user t = user_id u) (jwts s))\<rparr>"

text \<open>Modelled from the spec: \<^verbatim>\<open>User.findOne({ where: { email }, relations })\<close>.\<close>

definition User_findOne_email :: "Store \<Rightarrow> string \<Rightarrow> User option" where
  "User_findOne_email s e = map_option (with_relations s) (find (\<lambda>u. email u = e) (users s))"

text \<open>Modelled from the spec: \<^verbatim>\<open>userService.findOne({ where: { id }, relations })\<close>.\<close>

definition userService_findOne_id :: "Store \<Rightarrow> nat \<Rightarrow> User option" where
  "userService_findOne_id s i = map_option (with_relations s) (find (\<lambda>u. user_id u = i) (users s))"

text \<open>
  Modelled from the spec: the key the database generates for an inserted row, one that
  no stored row carries.
\<close>

fun next_jwt_id :: "Jwt list \<Rightarrow> nat" where
  "next_jwt_id [] = 1"
| "next_jwt_id (t # ts) = max (case jwt_id t of None \<Rightarrow> 0 | Some i \<Rightarrow> Suc i) (next_jwt_id ts)"

text \<open>
  Modelled from the spec: the write behind \<^verbatim>\<open>Jwt.save(token)\<close>, the upsert. An entity
  that carries the primary key of a stored row overwrites that row; any other entity is
  inserted, with a generated key when it has none.
\<close>

definition persist :: "Jwt \<Rightarrow> Store \<Rightarrow> Store" where
  "persist t s =
     (case jwt_id t of
        Some i \<Rightarrow>
          if Some i \<in> set (map jwt_id (jwts s))
          then s\<lparr>jwts := map (\<lambda>r. if jwt_id r = Some i then t else r) (jwts s)\<rparr>
          else s\<lparr>jwts := jwts s @ [t]\<rparr>
      | None \<Rightarrow> s\<lparr>jwts := jwts s @ [t\<lparr>jwt_id := Some (next_jwt_id (jwts s))\<rparr>]\<rparr>)"

text \<open>
  Modelled from the spec: \<^verbatim>\<open>Jwt.save(token)\<close> itself rejects (\<open>None\<close>) when the database
  refuses the write, and persists otherwise.
\<close>

definition Jwt_save :: "Env \<Rightarrow> Jwt \<Rightarrow> Store \<Rightarrow> Store option" where
  "Jwt_save env t s = (if Jwt_save_rejects env t s then None else Some (persist t s))"

text \<open>
  Modelled from the spec: \<^verbatim>\<open>Jwt.delete({ os, platform, browser, user })\<close>, returning the
  number of rows affected and the new store.
\<close>

definition Jwt_delete :: "UserAgentData \<Rightarrow> User \<Rightarrow> Store \<Rightarrow> nat \<times> Store" where
  "Jwt_delete ua u s =
     (let hit = (\<lambda>t. os t = ua_os ua \<and> platform t = ua_platform ua \<and>
                      browser t = ua_browser ua \<and> jwt_user t = user_id u)
      in (length (filter hit (jwts s)), s\<lparr>jwts := filter (\<lambda>t. \<not> hit t) (jwts s)\<rparr>))"

text \<open>
  Modelled from the spec:
  \<^verbatim>\<open>userService.update({ activationSecret: secret }, { activationSecret: null })\<close>.
\<close>

definition userService_update_secret :: "string \<Rightarrow> Store \<Rightarrow> nat \<times> Store" where
  "userService_update_secret secret s =
     (length (filter (\<lambda>u. activationSecret u = Some secret) (users s)),
      s\<lparr>users := map (\<lambda>u. if activationSecret u = Some secret
                           then u\<lparr>activationSecret := None\<rparr> else u) (users s)\<rparr>)"


section \<open>AuthService\<close>

definition validateUser :: "Env \<Rightarrow> Store \<Rightarrow> string \<Rightarrow> string \<Rightarrow> error + User" where
  "validateUser env s e pw =
     (case User_findOne_email s e of
        None \<Rightarrow> Inl NotFoundException
      | Some u \<Rightarrow>
          if bcrypt_compare env pw (password u) then Inr u
          else Inl (UnauthorizedException (Some ''Bad credentials!'')))"

text \<open>
  \<^verbatim>\<open>user?.jwtTokens.find(...)\<close> on an entity whose relation is \<open>undefined\<close> is a
  \<open>TypeError\<close>.
\<close>

definition validateJwt :: "Store \<Rightarrow> string \<Rightarrow> JwtPayload \<Rightarrow> error + User" where
  "validateJwt s j payload =
     (case userService_findOne_id s (payload_id payload) of
        None \<Rightarrow> Inl NotFoundException
      | Some u \<Rightarrow>
          (case jwtTokens u of
             None \<Rightarrow> Inl TypeError
           | Some ts \<Rightarrow>
               (case find (\<lambda>t. jwtToken t = j) ts of
                  None \<Rightarrow> Inl (UnauthorizedException None)
                | Some includeToken \<Rightarrow> Inr u)))"

text \<open>
  \<open>issueJwtToken\<close>: the result and the store afterwards. The search runs over the
  entity's loaded relation (\<^verbatim>\<open>user.jwtTokens?.find\<close>), not over the store.
\<close>

definition issueJwtToken ::
  "Env \<Rightarrow> Store \<Rightarrow> User \<Rightarrow> UserAgentData \<Rightarrow> bool \<Rightarrow> (error + string) \<times> Store" where
  "issueJwtToken env s u ua preventCreation =
     (let payload = \<lparr>payload_id = user_id u, payload_email = email u,
                     iat = None, exp_claim = None\<rparr>;
          signed = signAsync env payload;
          found = (case jwtTokens u of
                     None \<Rightarrow> None
                   | Some ts \<Rightarrow>
                       find (\<lambda>t. os t = ua_os ua \<and> platform t = ua_platform ua \<and>
                                 browser t = ua_browser ua) ts);
          save = (\<lambda>t. case Jwt_save env t s of
                         None \<Rightarrow> (Inl InternalServerErrorException, s)
                       | Some s' \<Rightarrow> (Inr signed, s'))
      in case found of
           Some t \<Rightarrow> save (t\<lparr>jwtToken := signed\<rparr>)
         | None \<Rightarrow>
             if preventCreation
             then (Inl (UnauthorizedException (Some ''Unauthorized device!'')), s)
             else save \<lparr>jwt_id = None, os = ua_os ua, platform = ua_platform ua,
                        browser = ua_browser ua, jwtToken = signed,
                        jwt_user = user_id u\<rparr>)"

text \<open>
  \<open>jwtExpiresAt\<close>: reading \<open>exp\<close> off the \<open>null\<close> that \<open>decode\<close> gives for an unreadable
  token is a \<open>TypeError\<close>; a payload without \<open>exp\<close> gives \<open>NaN\<close>.
\<close>

definition jwtExpiresAt :: "Env \<Rightarrow> string \<Rightarrow> error + js_number" where
  "jwtExpiresAt env j =
     (case decode env j of
        None \<Rightarrow> Inl TypeError
      | Some p \<Rightarrow> Inr (case exp_claim p of None \<Rightarrow> NaN | Some e \<Rightarrow> Number (e * 1000)))"

text \<open>
  In memory, \<^verbatim>\<open>token.jwtToken = jwtToken\<close> changes the element of \<^verbatim>\<open>user.jwtTokens\<close> that
  \<open>find\<close> returned, the first one of that device, before the write and whatever its
  outcome. \<open>entity_after_issue\<close> is the entity as the caller of \<open>issueJwtToken\<close> holds
  it afterwards; a created \<open>Jwt\<close> is not added to the entity's collection.
\<close>

fun assign_first :: "(Jwt \<Rightarrow> bool) \<Rightarrow> string \<Rightarrow> Jwt list \<Rightarrow> Jwt list" where
  "assign_first P j [] = []"
| "assign_first P j (t # ts) =
     (if P t then t\<lparr>jwtToken := j\<rparr> # ts else t # assign_first P j ts)"

definition entity_after_issue :: "Env \<Rightarrow> User \<Rightarrow> UserAgentData \<Rightarrow> User" where
  "entity_after_issue env u ua =
     (let payload = \<lparr>payload_id = user_id u, payload_email = email u,
                     iat = None, exp_claim = None\<rparr>;
          signed = signAsync env payload
      in u\<lparr>jwtTokens :=
             map_option
               (assign_first (\<lambda>t. os t = ua_os ua \<and> platform t = ua_platform ua \<and>
                                     browser t = ua_browser ua) signed)
               (jwtTokens u)\<rparr>)"


definition login ::
  "Env \<Rightarrow> Store \<Rightarrow> User \<Rightarrow> UserAgentData \<Rightarrow> (error + UserResDto) \<times> Store" where
  "login env s u ua =
     (case issueJwtToken env s u ua False of
        (Inl e, s') \<Rightarrow> (Inl e, s')
      | (Inr j, s') \<Rightarrow>
          (case jwtExpiresAt env j of
             Inl e \<Rightarrow> (Inl e, s')
           | Inr x \<Rightarrow>
               (Inr \<lparr>jwt = \<lparr>token = j, expiresAt = x\<rparr>,
                     user = entity_after_issue env u ua\<rparr>, s')))"

text \<open>
  \<open>logout\<close> returns the success object inside \<^verbatim>\<open>if (res.affected)\<close> and has no other
  \<^verbatim>\<open>return\<close>: with nothing deleted the promise resolves to \<open>undefined\<close>, here \<open>None\<close>.
\<close>

definition logout ::
  "Store \<Rightarrow> User \<Rightarrow> UserAgentData \<Rightarrow> (error + SuccessDto option) \<times> Store" where
  "logout s u ua =
     (case Jwt_delete ua u s of
        (affected, s') \<Rightarrow>
          if affected \<noteq> 0
          then (Inr (Some \<lparr>status = 200, message = ''Successfully logged out.''\<rparr>), s')
          else (Inr None, s'))"

definition refreshToken ::
  "Env \<Rightarrow> Store \<Rightarrow> User \<Rightarrow> UserAgentData \<Rightarrow> (error + UserResDto) \<times> Store" where
  "refreshToken env s u ua =
     (case issueJwtToken env s u ua True of
        (Inl e, s') \<Rightarrow> (Inl e, s')
      | (Inr j, s') \<Rightarrow>
          (case jwtExpiresAt env j of
             Inl e \<Rightarrow> (Inl e, s')
           | Inr x \<Rightarrow>
               (Inr \<lparr>jwt = \<lparr>token = j, expiresAt = x\<rparr>,
                     user = entity_after_issue env u ua\<rparr>, s')))"

text \<open>
  \<open>activateUser\<close>: with no row affected the source executes
  \<^verbatim>\<open>return new BadRequestException()\<close>, so the exception object is the value of the call
  (\<open>Inr\<close>), not a raised error (\<open>Inl\<close>).
\<close>

definition activateUser :: "Store \<Rightarrow> string \<Rightarrow> (error + ActivateResult) \<times> Store" where
  "activateUser s secret =
     (case userService_update_secret secret s of
        (affected, s') \<Rightarrow>
          if affected \<noteq> 0
          then (Inr (ActivationMessage ''User is successfully activated''), s')
          else (Inr (ReturnedException BadRequestException), s'))"

section \<open>Store predicates\<close>

text \<open>
  A Session Token of the given device fingerprint (structural equality on \<open>os\<close>,
  \<open>platform\<close>, \<open>browser\<close>), the rows of one (user, fingerprint) pair, and the Token
  Store's \<open>find(user, fingerprint)\<close>.
\<close>

definition same_device :: "UserAgentData \<Rightarrow> Jwt \<Rightarrow> bool" where
  "same_device ua t \<longleftrightarrow>
     os t = ua_os ua \<and> platform t = ua_platform ua \<and> browser t = ua_browser ua"

definition rows_for :: "Store \<Rightarrow> nat \<Rightarrow> UserAgentData \<Rightarrow> Jwt list" where
  "rows_for s i ua = filter (\<lambda>t. jwt_user t = i \<and> same_device ua t) (jwts s)"

definition Store_find :: "Store \<Rightarrow> nat \<Rightarrow> UserAgentData \<Rightarrow> Jwt option" where
  "Store_find s i ua = find (\<lambda>t. jwt_user t = i \<and> same_device ua t) (jwts s)"

text \<open>Every stored Session Token has a primary key and no two share one.\<close>

definition primary_keys :: "Store \<Rightarrow> bool" where
  "primary_keys s \<longleftrightarrow> distinct (map jwt_id (jwts s)) \<and> None \<notin> set (map jwt_id (jwts s))"

text \<open>At most one Session Token per (user, device fingerprint).\<close>

definition one_per_device :: "Store \<Rightarrow> bool" where
  "one_per_device s \<longleftrightarrow>
     distinct (map (\<lambda>t. (jwt_user t, os t, platform t, browser t)) (jwts s))"

text \<open>
  The entity's view of its Session Tokens agrees with the store, as it does for an
  entity just read with its relation (\<open>validateUser\<close>, \<open>validateJwt\<close>) and for a new
  user that owns none (an unloaded relation counts as empty, as \<^verbatim>\<open>?.\<close> treats it).
\<close>

definition in_sync :: "Store \<Rightarrow> User \<Rightarrow> bool" where
  "in_sync s u \<longleftrightarrow>
     (case jwtTokens u of None \<Rightarrow> [] | Some ts \<Rightarrow> ts) =
       filter (\<lambda>t. jwt_user t = user_id u) (jwts s)"

section \<open>Sample data\<close>

text \<open>
  A store with one user and one Session Token, two devices, and collaborators that
  always answer; the closed instances further down are evaluated on them.
\<close>

definition deviceA :: UserAgentData where
  "deviceA = \<lparr>ua_os = ''Linux'', ua_platform = ''desktop'', ua_browser = ''Firefox''\<rparr>"

definition deviceB :: UserAgentData where
  "deviceB = \<lparr>ua_os = ''Android'', ua_platform = ''mobile'', ua_browser = ''Chrome''\<rparr>"

definition alice :: User where
  "alice = \<lparr>user_id = 1, email = ''a@x.com'', password = ''hash:pw1'',
            activationSecret = Some ''s3cr3t'', jwtTokens = None\<rparr>"

definition tokenA :: Jwt where
  "tokenA = \<lparr>jwt_id = Some 1, os = ''Linux'', platform = ''desktop'', browser = ''Firefox'',
             jwtToken = ''tokA'', jwt_user = 1\<rparr>"

definition store0 :: Store where
  "store0 = \<lparr>users = [alice], jwts = [tokenA]\<rparr>"

definition alice_payload :: JwtPayload where
  "alice_payload = \<lparr>payload_id = 1, payload_email = ''a@x.com'',
                    iat = Some 1000, exp_claim = Some 2000\<rparr>"

definition bob_payload :: JwtPayload where
  "bob_payload = \<lparr>payload_id = 2, payload_email = ''b@x.com'',
                  iat = Some 1000, exp_claim = Some 2000\<rparr>"

definition env0 :: Env where
  "env0 = \<lparr>signAsync = (\<lambda>p. ''jwt:'' @ payload_email p),
           decode = (\<lambda>j. if j = ''jwt:a@x.com'' then Some alice_payload
                          else if j = ''jwt:b@x.com'' then Some bob_payload else None),
           bcrypt_compare = (\<lambda>pw h. h = ''hash:'' @ pw),
           Jwt_save_rejects = (\<lambda>t s. False),
           sendUserConfirmation = (\<lambda>u. True),
           userService_create = (\<lambda>dto s.
             let u = \<lparr>user_id = Suc (length (users s)), email = dto_email dto,
                      password = ''hash:'' @ dto_password dto,
                      activationSecret = Some ''fresh'', jwtTokens = None\<rparr>
             in (Inr u, s\<lparr>users := users s @ [u]\<rparr>))\<rparr>"

definition tokenB :: Jwt where
  "tokenB = \<lparr>jwt_id = Some 2, os = ''Android'', platform = ''mobile'', browser = ''Chrome'',
             jwtToken = ''jwt:a@x.com'', jwt_user = 1\<rparr>"

definition store1 :: Store where
  "store1 = \<lparr>users = [alice], jwts = [tokenA, tokenB]\<rparr>"

definition env1 :: Env where
  "env1 = env0\<lparr>signAsync := (\<lambda>p. ''v2:'' @ payload_email p)\<rparr>"

definition store2 :: Store where
  "store2 = \<lparr>users = [alice], jwts = [tokenA, tokenB\<lparr>jwtToken := ''v2:a@x.com''\<rparr>]\<rparr>"





section \<open>Auxiliary facts\<close>

lemma find_filter_conj:
  "find P (filter Q xs) = find (\<lambda>x. Q x \<and> P x) xs"
  by (induction xs) auto

lemma find_map_stable:
  "(\<And>x. x \<in> set xs \<Longrightarrow> P (f x) = P x) \<Longrightarrow> find P (map f xs) = map_option f (find P xs)"
  by (induction xs) auto

lemma found_is_Store_find:
  assumes "in_sync s u"
  shows "(case jwtTokens u of None \<Rightarrow> None
          | Some ts \<Rightarrow> find (\<lambda>t. os t = ua_os ua \<and> platform t = ua_platform ua \<and>
                                 browser t = ua_browser ua) ts)
         = Store_find s (user_id u) ua"
proof (cases "jwtTokens u")
  case None
  with assms have "filter (\<lambda>t. jwt_user t = user_id u) (jwts s) = []"
    by (simp add: in_sync_def)
  then have "find (\<lambda>t. jwt_user t = user_id u \<and> same_device ua t) (jwts s) = None"
    by (auto simp: find_None_iff filter_empty_conv)
  with None show ?thesis by (simp add: Store_find_def)
next
  case (Some ts)
  with assms have "ts = filter (\<lambda>t. jwt_user t = user_id u) (jwts s)"
    by (simp add: in_sync_def)
  with Some show ?thesis
    by (simp add: Store_find_def find_filter_conj same_device_def)
qed

lemma Store_find_None_iff: "Store_find s i ua = None \<longleftrightarrow> rows_for s i ua = []"
  by (auto simp: Store_find_def rows_for_def find_None_iff filter_empty_conv)

lemma validateJwt_char:
  "validateJwt s j p =
     (case find (\<lambda>u. user_id u = payload_id p) (users s) of
        None \<Rightarrow> Inl NotFoundException
      | Some x \<Rightarrow>
          if \<exists>t \<in> set (jwts s). jwt_user t = payload_id p \<and> jwtToken t = j
          then Inr (with_relations s x) else Inl (UnauthorizedException None))"
proof (cases "find (\<lambda>u. user_id u = payload_id p) (users s)")
  case None
  then show ?thesis by (simp add: validateJwt_def userService_findOne_id_def)
next
  case (Some x)
  then have id: "user_id x = payload_id p" by (auto simp: find_Some_iff)
  have "(find (\<lambda>t. jwtToken t = j) (filter (\<lambda>t. jwt_user t = payload_id p) (jwts s)) = None)
        \<longleftrightarrow> \<not> (\<exists>t \<in> set (jwts s). jwt_user t = payload_id p \<and> jwtToken t = j)"
    by (auto simp: find_None_iff)
  with Some id show ?thesis
    by (auto simp: validateJwt_def userService_findOne_id_def with_relations_def
             split: option.splits)
qed

lemma validateUser_char:
  "validateUser env s e pw =
     (case find (\<lambda>u. email u = e) (users s) of
        None \<Rightarrow> Inl NotFoundException
      | Some x \<Rightarrow>
          if bcrypt_compare env pw (password x) then Inr (with_relations s x)
          else Inl (UnauthorizedException (Some ''Bad credentials!'')))"
  by (simp add: validateUser_def User_findOne_email_def with_relations_def split: option.splits)

lemma issue_not_prevented:
  "fst (issueJwtToken env s u ua False) \<noteq> Inl (UnauthorizedException m)"
  by (simp add: issueJwtToken_def Let_def split: option.splits)



lemma find_append_last: "find P xs = None \<Longrightarrow> P y \<Longrightarrow> find P (xs @ [y]) = Some y"
  by (induction xs) (auto split: if_splits)

lemma distinct_devices_filter:
  "distinct (map (\<lambda>t. (jwt_user t, os t, platform t, browser t)) xs) \<Longrightarrow>
     length (filter (\<lambda>t. jwt_user t = i \<and> same_device ua t) xs) \<le> 1"
proof (induction xs)
  case Nil
  then show ?case by simp
next
  case (Cons x xs)
  show ?case
  proof (cases "jwt_user x = i \<and> same_device ua x")
    case True
    from Cons.prems have notin:
      "(jwt_user x, os x, platform x, browser x) \<notin>
         (\<lambda>t. (jwt_user t, os t, platform t, browser t)) ` set xs"
      by simp
    have "\<forall>t \<in> set xs. \<not> (jwt_user t = i \<and> same_device ua t)"
    proof (intro ballI notI)
      fix t assume t: "t \<in> set xs" and hit: "jwt_user t = i \<and> same_device ua t"
      from hit True have
        "(jwt_user x, os x, platform x, browser x) = (jwt_user t, os t, platform t, browser t)"
        by (simp add: same_device_def)
      with t notin show False by (metis (no_types, lifting) imageI)
    qed
    then have "filter (\<lambda>t. jwt_user t = i \<and> same_device ua t) xs = []"
      by (simp add: filter_empty_conv)
    with True show ?thesis by simp
  next
    case False
    with Cons show ?thesis by auto
  qed
qed

lemma persist_known:
  assumes "primary_keys s" and "t \<in> set (jwts s)"
  shows "persist (t\<lparr>jwtToken := j\<rparr>) s =
           s\<lparr>jwts := map (\<lambda>r. if r = t then r\<lparr>jwtToken := j\<rparr> else r) (jwts s)\<rparr>"
proof -
  from assms obtain i where i: "jwt_id t = Some i"
    by (cases "jwt_id t") (force simp: primary_keys_def)+
  from assms(1) have inj: "inj_on jwt_id (set (jwts s))"
    by (simp add: primary_keys_def distinct_map)
  have "map (\<lambda>r. if jwt_id r = Some i then t\<lparr>jwtToken := j\<rparr> else r) (jwts s) =
        map (\<lambda>r. if r = t then r\<lparr>jwtToken := j\<rparr> else r) (jwts s)"
  proof (rule map_cong [OF refl])
    fix r assume "r \<in> set (jwts s)"
    with inj_onD [OF inj, of r t] assms(2) i have "jwt_id r = Some i \<longleftrightarrow> r = t"
      by auto
    then show "(if jwt_id r = Some i then t\<lparr>jwtToken := j\<rparr> else r) =
               (if r = t then r\<lparr>jwtToken := j\<rparr> else r)"
      by simp
  qed
  moreover from assms(2) i have "Some i \<in> set (map jwt_id (jwts s))"
    by force
  ultimately show ?thesis using i by (simp add: persist_def)
qed

lemma persist_new:
  "persist \<lparr>jwt_id = None, os = a, platform = b, browser = c, jwtToken = j, jwt_user = i\<rparr> s =
     s\<lparr>jwts := jwts s @ [\<lparr>jwt_id = Some (next_jwt_id (jwts s)), os = a, platform = b,
                           browser = c, jwtToken = j, jwt_user = i\<rparr>]\<rparr>"
  by (simp add: persist_def)

lemma Store_find_SomeD:
  "Store_find s i ua = Some t \<Longrightarrow> t \<in> set (jwts s) \<and> jwt_user t = i \<and> same_device ua t"
  by (auto simp: Store_find_def find_Some_iff)

text \<open>What a successful issuance does to the store, for an entity that reflects it.\<close>

lemma issue_effect:
  assumes pk: "primary_keys s" and sync: "in_sync s u"
    and run: "issueJwtToken env s u ua pc = (Inr j, s')"
  shows "(case Store_find s (user_id u) ua of
            Some t \<Rightarrow> s' = s\<lparr>jwts := map (\<lambda>r. if r = t then r\<lparr>jwtToken := j\<rparr> else r) (jwts s)\<rparr>
          | None \<Rightarrow> \<not> pc \<and>
              s' = s\<lparr>jwts := jwts s @ [\<lparr>jwt_id = Some (next_jwt_id (jwts s)), os = ua_os ua,
                                       platform = ua_platform ua, browser = ua_browser ua,
                                       jwtToken = j, jwt_user = user_id u\<rparr>]\<rparr>)"
proof (cases "Store_find s (user_id u) ua")
  case None
  with run found_is_Store_find [OF sync, of ua] show ?thesis
    by (auto simp: issueJwtToken_def Let_def Jwt_save_def persist_new split: if_splits)
next
  case (Some t)
  then have "t \<in> set (jwts s)" by (simp add: Store_find_SomeD)
  from persist_known [OF pk this] Some run found_is_Store_find [OF sync, of ua]
  show ?thesis
    by (auto simp: issueJwtToken_def Let_def Jwt_save_def split: if_splits)
qed

lemma issue_failure:
  "issueJwtToken env s u ua pc = (Inl e, s') \<Longrightarrow>
     s' = s \<and> (e = InternalServerErrorException \<or>
               (pc \<and> e = UnauthorizedException (Some ''Unauthorized device!'')))"
  by (auto simp: issueJwtToken_def Let_def split: option.splits if_splits)


lemma overwrite_keeps_devices:
  "map (\<lambda>t. (jwt_user t, os t, platform t, browser t))
     (map (\<lambda>r. if r = t then r\<lparr>jwtToken := j\<rparr> else r) xs) =
   map (\<lambda>t. (jwt_user t, os t, platform t, browser t)) xs"
  by (induction xs) auto


lemma issue_keeps_one_per_device:
  assumes "primary_keys s" and "in_sync s u" and "issueJwtToken env s u ua pc = (Inr j, s')"
    and inv: "one_per_device s"
  shows "one_per_device s'"
proof (cases "Store_find s (user_id u) ua")
  case None
  then have "\<forall>t \<in> set (jwts s). \<not> (jwt_user t = user_id u \<and> same_device ua t)"
    by (auto simp: Store_find_def find_None_iff)
  with None issue_effect [OF assms(1-3)] inv show ?thesis
    by (auto simp: one_per_device_def same_device_def)
next
  case (Some t)
  with issue_effect [OF assms(1-3)] inv show ?thesis
    by (simp add: one_per_device_def overwrite_keeps_devices del: map_map)
qed

lemma one_per_device_rows: "one_per_device s \<Longrightarrow> length (rows_for s i ua) \<le> 1"
  unfolding one_per_device_def rows_for_def by (rule distinct_devices_filter)

lemma issue_row_present:
  assumes "primary_keys s" and "in_sync s u" and "issueJwtToken env s u ua pc = (Inr j, s')"
  shows "\<exists>t. Store_find s' (user_id u) ua = Some t \<and> jwtToken t = j"
proof (cases "Store_find s (user_id u) ua")
  case None
  then have "find (\<lambda>t. jwt_user t = user_id u \<and> same_device ua t) (jwts s) = None"
    by (simp add: Store_find_def)
  then have "find (\<lambda>t. jwt_user t = user_id u \<and> same_device ua t)
          (jwts s @ [\<lparr>jwt_id = Some (next_jwt_id (jwts s)), os = ua_os ua,
                       platform = ua_platform ua, browser = ua_browser ua,
                       jwtToken = j, jwt_user = user_id u\<rparr>]) =
        Some \<lparr>jwt_id = Some (next_jwt_id (jwts s)), os = ua_os ua,
               platform = ua_platform ua, browser = ua_browser ua,
               jwtToken = j, jwt_user = user_id u\<rparr>"
    by (rule find_append_last) (simp add: same_device_def)
  with None issue_effect [OF assms] show ?thesis
    by (simp add: Store_find_def)
next
  case (Some t)
  have "find (\<lambda>t. jwt_user t = user_id u \<and> same_device ua t)
          (map (\<lambda>r. if r = t then r\<lparr>jwtToken := j\<rparr> else r) (jwts s)) =
        map_option (\<lambda>r. if r = t then r\<lparr>jwtToken := j\<rparr> else r)
          (find (\<lambda>t. jwt_user t = user_id u \<and> same_device ua t) (jwts s))"
    by (rule find_map_stable) (simp add: same_device_def)
  with Some issue_effect [OF assms] show ?thesis
    by (simp add: Store_find_def)
qed


lemma Store_find_rows: "Store_find s i ua = Some t \<Longrightarrow> rows_for s i ua \<noteq> []"
  using Store_find_None_iff [of s i ua] by auto

lemma in_sync_with_relations: "in_sync s (with_relations s x)"
  by (simp add: in_sync_def with_relations_def)

lemma validateUser_in_sync: "validateUser env s e pw = Inr u \<Longrightarrow> in_sync s u"
  by (auto simp: validateUser_def User_findOne_email_def in_sync_with_relations
           split: option.splits if_splits)

lemma validateJwt_in_sync: "validateJwt s j p = Inr u \<Longrightarrow> in_sync s u"
  by (auto simp: validateJwt_def userService_findOne_id_def in_sync_with_relations
           split: option.splits)

lemma issue_one_row:
  assumes "primary_keys s" and "one_per_device s" and "in_sync s u"
    and "issueJwtToken env s u ua pc = (Inr j, s')"
  shows "length (rows_for s' (user_id u) ua) = 1"
proof -
  have "one_per_device s'"
    using assms(1,3,4,2) by (rule issue_keeps_one_per_device)
  then have "length (rows_for s' (user_id u) ua) \<le> 1" by (rule one_per_device_rows)
  moreover from issue_row_present [OF assms(1,3,4)] have "rows_for s' (user_id u) ua \<noteq> []"
    by (auto dest: Store_find_rows)
  then have "0 < length (rows_for s' (user_id u) ua)" by simp
  ultimately show ?thesis by linarith
qed


lemma Jwt_delete_rows:
  "Jwt_delete ua u s =
     (length (rows_for s (user_id u) ua),
      s\<lparr>jwts := filter (\<lambda>t. \<not> (jwt_user t = user_id u \<and> same_device ua t)) (jwts s)\<rparr>)"
proof -
  have "(\<lambda>t. os t = ua_os ua \<and> platform t = ua_platform ua \<and> browser t = ua_browser ua \<and>
              jwt_user t = user_id u) = (\<lambda>t. jwt_user t = user_id u \<and> same_device ua t)"
    by (auto simp: same_device_def)
  then show ?thesis by (simp add: Jwt_delete_def rows_for_def Let_def)
qed

lemma logout_char:
  "logout s u ua =
     (if rows_for s (user_id u) ua \<noteq> []
      then Inr (Some \<lparr>status = 200, message = ''Successfully logged out.''\<rparr>)
      else Inr None,
      s\<lparr>jwts := filter (\<lambda>t. \<not> (jwt_user t = user_id u \<and> same_device ua t)) (jwts s)\<rparr>)"
  by (simp add: logout_def Jwt_delete_rows)

lemma rows_for_after_delete:
  "rows_for (s\<lparr>jwts := filter (\<lambda>t. \<not> (jwt_user t = i \<and> same_device ua t)) (jwts s)\<rparr>) i ua = []"
  by (simp add: rows_for_def filter_empty_conv)

lemma no_rows_delete_id:
  "rows_for s i ua = [] \<Longrightarrow>
     s\<lparr>jwts := filter (\<lambda>t. \<not> (jwt_user t = i \<and> same_device ua t)) (jwts s)\<rparr> = s"
proof -
  assume "rows_for s i ua = []"
  then have "filter (\<lambda>t. \<not> (jwt_user t = i \<and> same_device ua t)) (jwts s) = jwts s"
    by (simp add: rows_for_def filter_empty_conv filter_id_conv)
  then show ?thesis by simp
qed



lemma activateUser_no_holder:
  assumes "\<forall>x \<in> set (users s). activationSecret x \<noteq> Some secret"
  shows "activateUser s secret = (Inr (ReturnedException BadRequestException), s)"
proof -
  from assms have "filter (\<lambda>u. activationSecret u = Some secret) (users s) = []"
    by (simp add: filter_empty_conv)
  moreover from assms have
    "map (\<lambda>u. if activationSecret u = Some secret then u\<lparr>activationSecret := None\<rparr> else u)
       (users s) = users s"
    by (simp add: map_idI)
  ultimately show ?thesis
    by (simp add: activateUser_def userService_update_secret_def)
qed

lemma activateUser_holder:
  assumes "\<exists>x \<in> set (users s). activationSecret x = Some secret"
  shows "activateUser s secret =
           (Inr (ActivationMessage ''User is successfully activated''),
            s\<lparr>users := map (\<lambda>u. if activationSecret u = Some secret
                                 then u\<lparr>activationSecret := None\<rparr> else u) (users s)\<rparr>)"
proof -
  from assms have "filter (\<lambda>u. activationSecret u = Some secret) (users s) \<noteq> []"
    by (simp add: filter_empty_conv)
  then show ?thesis
    by (simp add: activateUser_def userService_update_secret_def)
qed


section \<open>Token validation\<close>

text \<open>
  Claim C1. \<open>validateJwt\<close> returns the user found by the payload's id exactly when
  the presented string is the token string of some stored Session Token of that user,
  whatever device the token is stored under; it fails with NotFound exactly when no
  user has the payload's id, and with Unauthorized exactly when such a user exists and
  none of its stored tokens carries the presented string.
\<close>

theorem validateJwt_membership:
  "(validateJwt s j p = Inr u \<longleftrightarrow>
      userService_findOne_id s (payload_id p) = Some u \<and>
      (\<exists>t \<in> set (jwts s). jwt_user t = payload_id p \<and> jwtToken t = j))
   \<and> (validateJwt s j p = Inl NotFoundException \<longleftrightarrow>
      (\<forall>x \<in> set (users s). user_id x \<noteq> payload_id p))
   \<and> (validateJwt s j p = Inl (UnauthorizedException None) \<longleftrightarrow>
      (\<exists>x \<in> set (users s). user_id x = payload_id p) \<and>
      (\<forall>t \<in> set (jwts s). jwt_user t = payload_id p \<longrightarrow> jwtToken t \<noteq> j))"
proof (cases "find (\<lambda>u. user_id u = payload_id p) (users s)")
  case None
  then have "\<forall>x \<in> set (users s). user_id x \<noteq> payload_id p"
    by (auto simp: find_None_iff)
  with None show ?thesis
    by (auto simp: validateJwt_char userService_findOne_id_def)
next
  case (Some x)
  then have "\<exists>x \<in> set (users s). user_id x = payload_id p"
    by (auto simp: find_Some_iff)
  with Some show ?thesis
    by (auto simp: validateJwt_char userService_findOne_id_def)
qed

theorem validateJwt_membership_witness:
  "userService_findOne_id store0 (payload_id alice_payload) = Some (with_relations store0 alice)
   \<and> (\<exists>t \<in> set (jwts store0). jwt_user t = payload_id alice_payload \<and> jwtToken t = ''tokA'')
   \<and> validateJwt store0 ''tokA'' alice_payload = Inr (with_relations store0 alice)"
  using validateJwt_membership [of store0 "''tokA''" alice_payload "with_relations store0 alice"]
  by (simp add: userService_findOne_id_def store0_def alice_def tokenA_def alice_payload_def)

section \<open>Credential validation and login\<close>

text \<open>
  Claim C5. \<open>validateUser\<close> fails with NotFound exactly when no user has the email,
  fails with Unauthorized exactly when the user found by email has a password hash that
  the submitted password does not match, and returns the user exactly when it is found
  and the password matches. \<open>login\<close> then issues with creation allowed: it never
  refuses a device as unknown, and its effect on the store is that of
  \<open>issueJwtToken\<close> called without \<open>preventCreation\<close>.
\<close>

theorem validateUser_login_outcomes:
  "(validateUser env s e pw = Inl NotFoundException \<longleftrightarrow>
      (\<forall>x \<in> set (users s). email x \<noteq> e))
   \<and> (validateUser env s e pw = Inl (UnauthorizedException (Some ''Bad credentials!'')) \<longleftrightarrow>
      (\<exists>x. User_findOne_email s e = Some x \<and> \<not> bcrypt_compare env pw (password x)))
   \<and> (validateUser env s e pw = Inr u \<longleftrightarrow>
      User_findOne_email s e = Some u \<and> bcrypt_compare env pw (password u))
   \<and> fst (login env s u ua) \<noteq> Inl (UnauthorizedException m)
   \<and> snd (login env s u ua) = snd (issueJwtToken env s u ua False)"
proof -
  have a: "validateUser env s e pw = Inl NotFoundException \<longleftrightarrow>
      (\<forall>x \<in> set (users s). email x \<noteq> e)"
  proof (cases "find (\<lambda>u. email u = e) (users s)")
    case None
    then have "\<forall>x \<in> set (users s). email x \<noteq> e"
      by (auto simp: find_None_iff)
    with None show ?thesis by (simp add: validateUser_char)
  next
    case (Some x)
    then have "\<exists>x \<in> set (users s). email x = e"
      by (auto simp: find_Some_iff)
    with Some show ?thesis by (auto simp: validateUser_char)
  qed
  have b: "validateUser env s e pw = Inl (UnauthorizedException (Some ''Bad credentials!'')) \<longleftrightarrow>
      (\<exists>x. User_findOne_email s e = Some x \<and> \<not> bcrypt_compare env pw (password x))"
    by (auto simp: validateUser_def split: option.splits)
  have c: "validateUser env s e pw = Inr u \<longleftrightarrow>
      User_findOne_email s e = Some u \<and> bcrypt_compare env pw (password u)"
    by (auto simp: validateUser_def split: option.splits)
  have d: "fst (login env s u ua) \<noteq> Inl (UnauthorizedException m)"
    using issue_not_prevented [of env s u ua m]
    by (auto simp: login_def jwtExpiresAt_def split: prod.splits sum.splits option.splits)
  have e: "snd (login env s u ua) = snd (issueJwtToken env s u ua False)"
    by (auto simp: login_def split: prod.splits sum.splits)
  from a b c d e show ?thesis by blast
qed

theorem validateUser_login_outcomes_witness:
  "users store0 = [alice] \<and> email alice \<noteq> ''nobody@x.com''
   \<and> validateUser env0 store0 ''nobody@x.com'' ''pw1'' = Inl NotFoundException
   \<and> User_findOne_email store0 ''a@x.com'' = Some (with_relations store0 alice)
   \<and> \<not> bcrypt_compare env0 ''wrong'' (password (with_relations store0 alice))
   \<and> validateUser env0 store0 ''a@x.com'' ''wrong''
         = Inl (UnauthorizedException (Some ''Bad credentials!''))
   \<and> bcrypt_compare env0 ''pw1'' (password (with_relations store0 alice))
   \<and> validateUser env0 store0 ''a@x.com'' ''pw1'' = Inr (with_relations store0 alice)"
  using validateUser_login_outcomes
          [of env0 store0 "''nobody@x.com''" "''pw1''" "with_relations store0 alice" deviceA None]
        validateUser_login_outcomes
          [of env0 store0 "''a@x.com''" "''wrong''" "with_relations store0 alice" deviceA None]
        validateUser_login_outcomes
          [of env0 store0 "''a@x.com''" "''pw1''" "with_relations store0 alice" deviceA None]
  by (simp add: User_findOne_email_def with_relations_def store0_def alice_def env0_def)

section \<open>Refresh from an unknown device\<close>

text \<open>
  Claim C3. When the store holds no Session Token for the user and the fingerprint
  (and the entity reflects the store), \<open>refreshToken\<close> fails with Unauthorized and the
  store is exactly what it was: no row created, none modified.
\<close>

theorem refreshToken_unknown_device:
  assumes "in_sync s u" and "rows_for s (user_id u) ua = []"
  shows "refreshToken env s u ua =
           (Inl (UnauthorizedException (Some ''Unauthorized device!'')), s)"
proof -
  from assms(2) have "Store_find s (user_id u) ua = None"
    by (simp add: Store_find_None_iff)
  with found_is_Store_find [OF assms(1), of ua]
  have "issueJwtToken env s u ua True =
          (Inl (UnauthorizedException (Some ''Unauthorized device!'')), s)"
    by (simp add: issueJwtToken_def Let_def)
  then show ?thesis by (simp add: refreshToken_def)
qed

theorem refreshToken_unknown_device_witness:
  "in_sync store0 (with_relations store0 alice)
   \<and> rows_for store0 (user_id (with_relations store0 alice)) deviceB = []
   \<and> refreshToken env0 store0 (with_relations store0 alice) deviceB =
        (Inl (UnauthorizedException (Some ''Unauthorized device!'')), store0)"
proof -
  have a: "in_sync store0 (with_relations store0 alice)"
    by (simp add: in_sync_def with_relations_def store0_def alice_def tokenA_def)
  have b: "rows_for store0 (user_id (with_relations store0 alice)) deviceB = []"
    by (simp add: rows_for_def same_device_def with_relations_def store0_def alice_def
                  tokenA_def deviceB_def)
  from a b refreshToken_unknown_device [OF a b, of env0] show ?thesis by simp
qed

section \<open>Expiry reported to clients\<close>



section \<open>Token issuance\<close>

text \<open>
  The hypotheses shared by the issuance theorems: the Session Token table has primary
  keys, and the entity handed to \<open>issueJwtToken\<close> reflects the store, which holds for
  the entity that \<open>validateUser\<close> or \<open>validateJwt\<close> has just read
  (\<open>validateUser_in_sync\<close>, \<open>validateJwt_in_sync\<close>).
\<close>



text \<open>
  Claim C8. After a successful issuance with creation allowed, the Token Store's
  \<open>find(U, F)\<close> returns a Session Token whose token string is the one returned to the
  caller. A returned token is the token string of an entity whose write the database
  accepted, and the store afterwards is the store after that write; when the write is
  rejected the call fails with InternalError and the store is unchanged.
\<close>

theorem issue_write_then_read:
  assumes "primary_keys s" and "in_sync s u"
    and "issueJwtToken env s u ua False = (r, s')"
  shows "(case r of
            Inr j \<Rightarrow>
              (\<exists>t. Store_find s' (user_id u) ua = Some t \<and> jwtToken t = j) \<and>
              (\<exists>t. \<not> Jwt_save_rejects env t s \<and> s' = persist t s \<and> jwtToken t = j)
          | Inl e \<Rightarrow> e = InternalServerErrorException \<and> s' = s)
         \<and> ((\<forall>t. Jwt_save_rejects env t s) \<longrightarrow> r = Inl InternalServerErrorException)"
proof (cases r)
  case (Inl e)
  with assms(3) issue_failure [of env s u ua False e s'] show ?thesis by simp
next
  case (Inr j)
  with assms have "\<exists>t. Store_find s' (user_id u) ua = Some t \<and> jwtToken t = j"
    by (simp add: issue_row_present)
  moreover from Inr assms(3)
  have "\<exists>t. \<not> Jwt_save_rejects env t s \<and> s' = persist t s \<and> jwtToken t = j"
    by (auto simp: issueJwtToken_def Let_def Jwt_save_def split: option.splits if_splits)
  ultimately show ?thesis using Inr by auto
qed

theorem issue_write_then_read_witness:
  "primary_keys store0 \<and> in_sync store0 (with_relations store0 alice)
   \<and> issueJwtToken env0 store0 (with_relations store0 alice) deviceB False
        = (Inr ''jwt:a@x.com'', store1)
   \<and> Store_find store1 1 deviceB = Some tokenB
   \<and> jwtToken tokenB = ''jwt:a@x.com''"
proof -
  have pk: "primary_keys store0"
    by (simp add: primary_keys_def store0_def tokenA_def)
  have sync: "in_sync store0 (with_relations store0 alice)"
    by (rule in_sync_with_relations)
  have run: "issueJwtToken env0 store0 (with_relations store0 alice) deviceB False
               = (Inr ''jwt:a@x.com'', store1)"
    by (simp add: issueJwtToken_def Jwt_save_def persist_def with_relations_def Let_def
                  store0_def store1_def alice_def tokenA_def tokenB_def deviceB_def env0_def)
  have found: "Store_find store1 1 deviceB = Some tokenB"
    by (simp add: Store_find_def same_device_def store1_def tokenA_def tokenB_def deviceB_def)
  have "jwtToken tokenB = ''jwt:a@x.com''"
    by (simp add: tokenB_def)
  with issue_write_then_read [OF pk sync run] pk sync run found show ?thesis by simp
qed

text \<open>
  Claim C9. When \<open>issueJwtToken\<close> finds a stored row for (U, F), the User table and the
  number of Session Token rows are unchanged; every row keeps its key, \<open>os\<close>,
  \<open>platform\<close>, \<open>browser\<close> and owner; every row other than the one found, and so every
  row of another user or another fingerprint, is exactly what it was; on success the
  row found differs from before in its token string only.
\<close>

theorem reissue_frame:
  assumes pk: "primary_keys s" and sync: "in_sync s u"
    and found: "Store_find s (user_id u) ua = Some t"
    and run: "issueJwtToken env s u ua pc = (r, s')"
  shows "users s' = users s \<and> length (jwts s') = length (jwts s)
         \<and> (\<forall>n < length (jwts s).
              jwt_id (jwts s' ! n) = jwt_id (jwts s ! n) \<and>
              os (jwts s' ! n) = os (jwts s ! n) \<and>
              platform (jwts s' ! n) = platform (jwts s ! n) \<and>
              browser (jwts s' ! n) = browser (jwts s ! n) \<and>
              jwt_user (jwts s' ! n) = jwt_user (jwts s ! n) \<and>
              (jwts s ! n \<noteq> t \<longrightarrow> jwts s' ! n = jwts s ! n) \<and>
              (jwt_user (jwts s ! n) \<noteq> user_id u \<or> \<not> same_device ua (jwts s ! n)
                 \<longrightarrow> jwts s' ! n = jwts s ! n))
         \<and> (\<forall>j. r = Inr j \<longrightarrow>
              jwts s' = map (\<lambda>a. if a = t then a\<lparr>jwtToken := j\<rparr> else a) (jwts s))"
proof (cases r)
  case (Inl e)
  with run have "s' = s" by (simp add: issue_failure)
  with Inl show ?thesis by simp
next
  case (Inr j)
  with run have "issueJwtToken env s u ua pc = (Inr j, s')" by simp
  from issue_effect [OF pk sync this] found
  have eff: "s' = s\<lparr>jwts := map (\<lambda>a. if a = t then a\<lparr>jwtToken := j\<rparr> else a) (jwts s)\<rparr>"
    by simp
  from found have tm: "jwt_user t = user_id u \<and> same_device ua t"
    by (simp add: Store_find_SomeD)
  from eff tm Inr show ?thesis by auto
qed

theorem reissue_frame_witness:
  "primary_keys store1 \<and> in_sync store1 (with_relations store1 alice)
   \<and> Store_find store1 (user_id (with_relations store1 alice)) deviceB = Some tokenB
   \<and> issueJwtToken env1 store1 (with_relations store1 alice) deviceB True
        = (Inr ''v2:a@x.com'', store2)
   \<and> users store2 = users store1
   \<and> jwts store2 = map (\<lambda>a. if a = tokenB then a\<lparr>jwtToken := ''v2:a@x.com''\<rparr> else a)
                      (jwts store1)"
proof -
  have pk: "primary_keys store1"
    by (simp add: primary_keys_def store1_def tokenA_def tokenB_def)
  have sync: "in_sync store1 (with_relations store1 alice)"
    by (rule in_sync_with_relations)
  have found: "Store_find store1 (user_id (with_relations store1 alice)) deviceB = Some tokenB"
    by (simp add: Store_find_def same_device_def with_relations_def store1_def alice_def
                  tokenA_def tokenB_def deviceB_def)
  have run: "issueJwtToken env1 store1 (with_relations store1 alice) deviceB True
               = (Inr ''v2:a@x.com'', store2)"
    by (simp add: issueJwtToken_def Jwt_save_def persist_def with_relations_def Let_def
                  store1_def store2_def alice_def tokenA_def tokenB_def deviceB_def
                  env0_def env1_def)
  from reissue_frame [OF pk sync found run] pk sync found run show ?thesis by simp
qed

section \<open>Logout\<close>

text \<open>
  Claim C4, as the code has it. After a successful issuance for (U, F), \<open>logout\<close>
  removes exactly one Session Token row, leaves the User table alone and returns the
  success object. A second \<open>logout\<close>, and any \<open>logout\<close> with no matching row, raises
  no error and leaves the store unchanged; the success object is returned only when a
  row was removed, otherwise the call has no result value.
\<close>

theorem logout_after_issue:
  assumes pk: "primary_keys s" and inv: "one_per_device s" and sync: "in_sync s u"
    and issue: "issueJwtToken env s u ua False = (Inr j, s1)"
    and first: "logout s1 u ua = (r1, s2)"
    and second: "logout s2 u ua = (r2, s3)"
  shows "r1 = Inr (Some \<lparr>status = 200, message = ''Successfully logged out.''\<rparr>)
         \<and> Suc (length (jwts s2)) = length (jwts s1)
         \<and> users s2 = users s1
         \<and> rows_for s2 (user_id u) ua = []
         \<and> r2 = Inr None \<and> s3 = s2
         \<and> (\<forall>x v d. rows_for x (user_id v) d = [] \<longrightarrow> logout x v d = (Inr None, x))
         \<and> (\<forall>x v d. \<exists>y. fst (logout x v d) = Inr y)"
proof -
  let ?hit = "\<lambda>t. jwt_user t = user_id u \<and> same_device ua t"
  have one: "length (rows_for s1 (user_id u) ua) = 1"
    using pk inv sync issue by (rule issue_one_row)
  then have ne: "rows_for s1 (user_id u) ua \<noteq> []" by auto
  from first ne have r1: "r1 = Inr (Some \<lparr>status = 200, message = ''Successfully logged out.''\<rparr>)"
    and s2: "s2 = s1\<lparr>jwts := filter (\<lambda>t. \<not> ?hit t) (jwts s1)\<rparr>"
    by (simp_all add: logout_char)
  have "length (filter ?hit (jwts s1)) + length (filter (\<lambda>t. \<not> ?hit t) (jwts s1)) =
        length (jwts s1)"
    by (rule sum_length_filter_compl)
  with one s2 have len: "Suc (length (jwts s2)) = length (jwts s1)"
    by (simp add: rows_for_def)
  have none: "rows_for s2 (user_id u) ua = []"
    unfolding s2 by (rule rows_for_after_delete)
  have gen: "\<forall>x v d. rows_for x (user_id v) d = [] \<longrightarrow> logout x v d = (Inr None, x)"
  proof (intro allI impI)
    fix x :: Store and v :: User and d :: UserAgentData
    assume "rows_for x (user_id v) d = []"
    with no_rows_delete_id [OF this] show "logout x v d = (Inr None, x)"
      by (simp add: logout_char)
  qed
  with none second have "r2 = Inr None \<and> s3 = s2" by auto
  moreover have "\<forall>x v d. \<exists>y. fst (logout x v d) = Inr y"
    by (simp add: logout_char)
  ultimately show ?thesis using r1 len s2 none gen by simp
qed

theorem logout_after_issue_witness:
  "primary_keys store0 \<and> one_per_device store0
   \<and> in_sync store0 (with_relations store0 alice)
   \<and> issueJwtToken env0 store0 (with_relations store0 alice) deviceB False
        = (Inr ''jwt:a@x.com'', store1)
   \<and> logout store1 (with_relations store0 alice) deviceB
        = (Inr (Some \<lparr>status = 200, message = ''Successfully logged out.''\<rparr>), store0)
   \<and> logout store0 (with_relations store0 alice) deviceB = (Inr None, store0)
   \<and> Suc (length (jwts store0)) = length (jwts store1)"
proof -
  have pk: "primary_keys store0"
    by (simp add: primary_keys_def store0_def tokenA_def)
  have inv: "one_per_device store0"
    by (simp add: one_per_device_def store0_def)
  have sync: "in_sync store0 (with_relations store0 alice)"
    by (rule in_sync_with_relations)
  have run: "issueJwtToken env0 store0 (with_relations store0 alice) deviceB False
               = (Inr ''jwt:a@x.com'', store1)"
    by (simp add: issueJwtToken_def Jwt_save_def persist_def with_relations_def Let_def
                  store0_def store1_def alice_def tokenA_def tokenB_def deviceB_def env0_def)
  have first: "logout store1 (with_relations store0 alice) deviceB
                 = (Inr (Some \<lparr>status = 200, message = ''Successfully logged out.''\<rparr>), store0)"
    by (simp add: logout_def Jwt_delete_def with_relations_def Let_def
                  store0_def store1_def alice_def tokenA_def tokenB_def deviceB_def)
  have second: "logout store0 (with_relations store0 alice) deviceB = (Inr None, store0)"
    by (simp add: logout_def Jwt_delete_def with_relations_def Let_def
                  store0_def alice_def tokenA_def deviceB_def)
  from logout_after_issue [OF pk inv sync run first second] pk inv sync run first second
  show ?thesis by simp
qed

text \<open>
  Claim C4 as written fails on the second call: with no row left for the pair,
  \<open>logout\<close> does not return a success result.
\<close>

theorem logout_second_call_counterexample:
  "logout store1 alice deviceB
     = (Inr (Some \<lparr>status = 200, message = ''Successfully logged out.''\<rparr>), store0)
   \<and> logout store0 alice deviceB = (Inr None, store0)
   \<and> fst (logout store0 alice deviceB)
        \<noteq> Inr (Some \<lparr>status = 200, message = ''Successfully logged out.''\<rparr>)"
  by (simp add: logout_def Jwt_delete_def Let_def
                store0_def store1_def alice_def tokenA_def tokenB_def deviceB_def)

section \<open>Signup\<close>



section \<open>Activation\<close>

text \<open>
  Claim C7 at an input where it fails. No user of \<open>store0\<close> holds the secret
  \<open>''nosuch''\<close>: \<open>activateUser\<close> changes nothing, but the \<open>BadRequestException\<close> is its
  return value, not an error raised to the caller.
\<close>

theorem activateUser_unknown_secret_returns_exception:
  "activateUser store0 ''nosuch'' = (Inr (ReturnedException BadRequestException), store0)
   \<and> fst (activateUser store0 ''nosuch'') \<noteq> Inl BadRequestException"
  by (simp add: activateUser_def userService_update_secret_def store0_def alice_def)

end
